theory Spec2Isabelle
  imports Complex_Main
begin

section \<open>Numbers\<close>

text \<open>
  A number of the host language is an IEEE-754 binary64 value: a finite value, given
  by the rational it denotes, one of the two infinities, or NaN. The two zeros are not
  told apart: \<^verbatim>\<open>===\<close> does not tell them apart either, and no operation used here
  does. Equality of this type is \<^verbatim>\<open>===\<close> except on NaN.
\<close>

datatype double = Fin rat | PInf | NInf | NaN

text \<open>The number of binary digits of a natural number.\<close>

fun bits :: "nat \<Rightarrow> nat" where
  "bits n = (if n = 0 then 0 else Suc (bits (n div 2)))"

declare bits.simps [simp del]

text \<open>
  For a positive rational \<open>x\<close>, the exponent \<open>e\<close> of its binade:
  \<open>2 ^ e \<le> x < 2 ^ (e + 1)\<close> (lemma \<open>ilog2_binade\<close> below).
\<close>

definition ilog2 :: "rat \<Rightarrow> int" where
  "ilog2 x = (if 1 \<le> x then int (bits (nat \<lfloor>x\<rfloor>)) - 1
              else - int (bits (nat (\<lceil>1 / x\<rceil> - 1))))"

definition pow2 :: "int \<Rightarrow> rat" where
  "pow2 k = (if 0 \<le> k then 2 ^ nat k else 1 / 2 ^ nat (- k))"

text \<open>The nearest integer, a tie going to the even one.\<close>

definition rne :: "rat \<Rightarrow> int" where
  "rne x = (let f = \<lfloor>x\<rfloor>; r = x - of_int f in
            if r < 1 / 2 then f
            else if 1 / 2 < r then f + 1
            else if even f then f else f + 1)"

text \<open>
  Rounding of an exact result to binary64, to nearest with ties to even: 53 significant
  bits in the binade of \<open>x\<close>, the spacing of the subnormal numbers below
  \<open>2 ^ - 1022\<close>, and an infinity when the rounded value reaches \<open>2 ^ 1024\<close>.
\<close>

definition round64 :: "rat \<Rightarrow> double" where
  "round64 x =
     (if x = 0 then Fin 0
      else (let e = max (ilog2 \<bar>x\<bar>) (- 1022);
                q = pow2 (e - 52);
                y = of_int (rne (x / q)) * q
            in if pow2 1024 \<le> \<bar>y\<bar> then (if 0 < x then PInf else NInf) else Fin y))"

fun fneg :: "double \<Rightarrow> double" where
  "fneg (Fin a) = Fin (- a)"
| "fneg PInf = NInf"
| "fneg NInf = PInf"
| "fneg NaN = NaN"

text \<open>The operators \<^verbatim>\<open>+\<close> and \<^verbatim>\<open>-\<close> on numbers, and \<^verbatim>\<open>/ 2\<close>.\<close>

fun fadd :: "double \<Rightarrow> double \<Rightarrow> double" where
  "fadd NaN y = NaN"
| "fadd x NaN = NaN"
| "fadd PInf NInf = NaN"
| "fadd NInf PInf = NaN"
| "fadd PInf y = PInf"
| "fadd x PInf = PInf"
| "fadd NInf y = NInf"
| "fadd x NInf = NInf"
| "fadd (Fin a) (Fin b) = round64 (a + b)"

definition fsub :: "double \<Rightarrow> double \<Rightarrow> double" where
  "fsub x y = fadd x (fneg y)"

fun fhalf :: "double \<Rightarrow> double" where
  "fhalf (Fin a) = round64 (a / 2)"
| "fhalf x = x"

section \<open>Values of the host language\<close>

text \<open>
  One entry of the table returned by \<^verbatim>\<open>getItemAngles()\<close>: the object
  \<^verbatim>\<open>{start, end}\<close>, in degrees.
\<close>

record angle =
  a_start :: double
  a_end :: double

text \<open>
  Modelled from the spec: the interface \<^verbatim>\<open>IWheel\<close> of \<^verbatim>\<open>wheel.js\<close>, which is not
  among the sources. The spec (External interfaces) gives it three operations: the ordered
  sequence \<^verbatim>\<open>items\<close>, the table \<^verbatim>\<open>getItemAngles()\<close> and the signal
  \<^verbatim>\<open>refresh()\<close>, which requests a re-render and returns nothing. An Item in the
  sequence is represented by its object identity (an address), which is all that
  \<^verbatim>\<open>i === this\<close> compares; \<open>refreshed\<close> counts the calls of \<^verbatim>\<open>refresh()\<close>.
\<close>

record IWheel =
  items :: "nat list"
  itemAngles :: "angle list"
  refreshed :: nat

datatype jsval =
    Undefined
  | Null
  | Boolean bool
  | Number double
  | String string
  | Object "(string \<times> jsval) list"
  | WheelObj IWheel

type_synonym obj = "(string \<times> jsval) list"

text \<open>The operator \<^verbatim>\<open>typeof\<close>; note that \<^verbatim>\<open>typeof null\<close> is \<^verbatim>\<open>'object'\<close>.\<close>

fun typeof :: "jsval \<Rightarrow> string" where
  "typeof Undefined = ''undefined''"
| "typeof Null = ''object''"
| "typeof (Boolean b) = ''boolean''"
| "typeof (Number n) = ''number''"
| "typeof (String s) = ''string''"
| "typeof (Object kvs) = ''object''"
| "typeof (WheelObj w) = ''object''"

text \<open>Truthiness, as tested by \<^verbatim>\<open>if (props)\<close>.\<close>

fun truthy :: "jsval \<Rightarrow> bool" where
  "truthy Undefined = False"
| "truthy Null = False"
| "truthy (Boolean b) = b"
| "truthy (Number n) = (n \<noteq> Fin 0 \<and> n \<noteq> NaN)"
| "truthy (String s) = (s \<noteq> [])"
| "truthy (Object kvs) = True"
| "truthy (WheelObj w) = True"

text \<open>Reading a property of an object literal: \<^verbatim>\<open>undefined\<close> when the key is absent.\<close>

fun get_prop :: "obj \<Rightarrow> string \<Rightarrow> jsval" where
  "get_prop [] k = Undefined"
| "get_prop ((k', v) # kvs) k = (if k' = k then v else get_prop kvs k)"

text \<open>
  \<^verbatim>\<open>props.key\<close> for a value other than \<^verbatim>\<open>null\<close> and \<^verbatim>\<open>undefined\<close>: a key
  that the value does not have reads as \<^verbatim>\<open>undefined\<close>. An \<^verbatim>\<open>IWheel\<close> is
  modelled with its three operations only, so it has none of the keys of a property bag.
\<close>

fun member_of :: "jsval \<Rightarrow> string \<Rightarrow> jsval" where
  "member_of (Object kvs) k = get_prop kvs k"
| "member_of v k = Undefined"

fun str_of :: "jsval \<Rightarrow> string" where
  "str_of (String s) = s"
| "str_of v = []"

text \<open>
  Modelled from the spec: \<^verbatim>\<open>util.isObject\<close> of \<^verbatim>\<open>util.js\<close>, which is not among the
  sources. The spec speaks of a reference that is "not an object (absent/malformed)" and
  of a "non-object, non-null value": an object is a value of type \<^verbatim>\<open>'object'\<close> other
  than \<^verbatim>\<open>null\<close>.
\<close>

definition isObject :: "jsval \<Rightarrow> bool" where
  "isObject v = (typeof v = ''object'' \<and> v \<noteq> Null)"

datatype error =
    InvalidArgument string
  | NotFound string
  | TypeError

section \<open>The Item and its world\<close>

text \<open>
  The private fields of an Item (\<^verbatim>\<open>_backgroundColor\<close> is \<open>p_backgroundColor\<close>, and so
  on) and its identity \<open>addr\<close>. The field \<^verbatim>\<open>path\<close> belongs to rendering and is left out.
\<close>

record Item =
  addr :: nat
  p_backgroundColor :: jsval
  p_image :: jsval
  p_imageObj :: jsval
  p_imageOpacity :: jsval
  p_imageRadius :: jsval
  p_imageRotation :: jsval
  p_imageScale :: jsval
  p_label :: jsval
  p_labelColor :: jsval
  p_value :: jsval
  p_weight :: jsval

text \<open>
  The state the methods of one Item act on: the Item itself, the Wheel behind its
  back reference \<^verbatim>\<open>_wheel\<close>, and the URLs handed to \<^verbatim>\<open>util.loadImage\<close> so far, in
  order of request.
\<close>

record World =
  self :: Item
  wheel :: IWheel
  loads :: "string list"

text \<open>
  \<^verbatim>\<open>util.loadImage\<close> is not among the sources; it is a parameter \<open>ld\<close> of the model:
  \<open>ld n url\<close> is the value that the call number \<open>n\<close> (counted from 0) returns at once
  for \<open>url\<close>. \<^verbatim>\<open>Defaults.item\<close> of \<^verbatim>\<open>constants.js\<close> is the parameter \<open>D\<close>.
\<close>

type_synonym loader = "nat \<Rightarrow> string \<Rightarrow> jsval"

definition refresh :: "World \<Rightarrow> World" where
  "refresh s = s\<lparr>wheel := (wheel s)\<lparr>refreshed := Suc (refreshed (wheel s))\<rparr>\<rparr>"

subsection \<open>Getters\<close>

definition get_backgroundColor :: "World \<Rightarrow> jsval" where
  "get_backgroundColor s = p_backgroundColor (self s)"

definition get_image :: "World \<Rightarrow> jsval" where
  "get_image s = p_image (self s)"

definition get_imageObj :: "World \<Rightarrow> jsval" where
  "get_imageObj s = p_imageObj (self s)"

definition get_imageOpacity :: "World \<Rightarrow> jsval" where
  "get_imageOpacity s = p_imageOpacity (self s)"

definition get_imageRadius :: "World \<Rightarrow> jsval" where
  "get_imageRadius s = p_imageRadius (self s)"

definition get_imageRotation :: "World \<Rightarrow> jsval" where
  "get_imageRotation s = p_imageRotation (self s)"

definition get_imageScale :: "World \<Rightarrow> jsval" where
  "get_imageScale s = p_imageScale (self s)"

definition get_label :: "World \<Rightarrow> jsval" where
  "get_label s = p_label (self s)"

definition get_labelColor :: "World \<Rightarrow> jsval" where
  "get_labelColor s = p_labelColor (self s)"

definition get_value :: "World \<Rightarrow> jsval" where
  "get_value s = p_value (self s)"

definition get_weight :: "World \<Rightarrow> jsval" where
  "get_weight s = p_weight (self s)"

subsection \<open>Setters\<close>

definition set_backgroundColor :: "obj \<Rightarrow> jsval \<Rightarrow> World \<Rightarrow> World" where
  "set_backgroundColor D val s =
     (let s' = (if typeof val = ''string''
                then s\<lparr>self := (self s)\<lparr>p_backgroundColor := val\<rparr>\<rparr>
                else s\<lparr>self := (self s)\<lparr>p_backgroundColor := get_prop D ''backgroundColor''\<rparr>\<rparr>)
      in refresh s')"

text \<open>
  The image setter stores what \<^verbatim>\<open>util.loadImage\<close> returns in \<^verbatim>\<open>_imageObj\<close> at
  once, and hands it the callback \<open>image_onload\<close> below.
\<close>

definition set_image :: "obj \<Rightarrow> loader \<Rightarrow> jsval \<Rightarrow> World \<Rightarrow> World" where
  "set_image D ld val s =
     (let s' = (if typeof val = ''string''
                then s\<lparr>self := (self s)\<lparr>p_image := val,
                                         p_imageObj := ld (length (loads s)) (str_of val)\<rparr>,
                       loads := loads s @ [str_of val]\<rparr>
                else s\<lparr>self := (self s)\<lparr>p_image := get_prop D ''image'', p_imageObj := Null\<rparr>\<rparr>)
      in refresh s')"

text \<open>The callback \<^verbatim>\<open>e => this._wheel.refresh()\<close> given to \<^verbatim>\<open>util.loadImage\<close>.\<close>

definition image_onload :: "World \<Rightarrow> World" where
  "image_onload s = refresh s"

definition set_imageOpacity :: "obj \<Rightarrow> jsval \<Rightarrow> World \<Rightarrow> World" where
  "set_imageOpacity D val s =
     (let s' = (if typeof val = ''number''
                then s\<lparr>self := (self s)\<lparr>p_imageOpacity := val\<rparr>\<rparr>
                else s\<lparr>self := (self s)\<lparr>p_imageOpacity := get_prop D ''imageOpacity''\<rparr>\<rparr>)
      in refresh s')"

definition set_imageRadius :: "obj \<Rightarrow> jsval \<Rightarrow> World \<Rightarrow> World" where
  "set_imageRadius D val s =
     (let s' = (if typeof val = ''number''
                then s\<lparr>self := (self s)\<lparr>p_imageRadius := val\<rparr>\<rparr>
                else s\<lparr>self := (self s)\<lparr>p_imageRadius := get_prop D ''imageRadius''\<rparr>\<rparr>)
      in refresh s')"

definition set_imageRotation :: "obj \<Rightarrow> jsval \<Rightarrow> World \<Rightarrow> World" where
  "set_imageRotation D val s =
     (let s' = (if typeof val = ''number''
                then s\<lparr>self := (self s)\<lparr>p_imageRotation := val\<rparr>\<rparr>
                else s\<lparr>self := (self s)\<lparr>p_imageRotation := get_prop D ''imageRotation''\<rparr>\<rparr>)
      in refresh s')"

definition set_imageScale :: "obj \<Rightarrow> jsval \<Rightarrow> World \<Rightarrow> World" where
  "set_imageScale D val s =
     (let s' = (if typeof val = ''number''
                then s\<lparr>self := (self s)\<lparr>p_imageScale := val\<rparr>\<rparr>
                else s\<lparr>self := (self s)\<lparr>p_imageScale := get_prop D ''imageScale''\<rparr>\<rparr>)
      in refresh s')"

definition set_label :: "obj \<Rightarrow> jsval \<Rightarrow> World \<Rightarrow> World" where
  "set_label D val s =
     (let s' = (if typeof val = ''string''
                then s\<lparr>self := (self s)\<lparr>p_label := val\<rparr>\<rparr>
                else s\<lparr>self := (self s)\<lparr>p_label := get_prop D ''label''\<rparr>\<rparr>)
      in refresh s')"

definition set_labelColor :: "obj \<Rightarrow> jsval \<Rightarrow> World \<Rightarrow> World" where
  "set_labelColor D val s =
     (let s' = (if typeof val = ''string''
                then s\<lparr>self := (self s)\<lparr>p_labelColor := val\<rparr>\<rparr>
                else s\<lparr>self := (self s)\<lparr>p_labelColor := get_prop D ''labelColor''\<rparr>\<rparr>)
      in refresh s')"

text \<open>The setters of \<^verbatim>\<open>value\<close> and \<^verbatim>\<open>weight\<close> do not call \<^verbatim>\<open>refresh()\<close>.\<close>

definition set_value :: "obj \<Rightarrow> jsval \<Rightarrow> World \<Rightarrow> World" where
  "set_value D val s =
     (if val \<noteq> Undefined
      then s\<lparr>self := (self s)\<lparr>p_value := val\<rparr>\<rparr>
      else s\<lparr>self := (self s)\<lparr>p_value := get_prop D ''value''\<rparr>\<rparr>)"

definition set_weight :: "obj \<Rightarrow> jsval \<Rightarrow> World \<Rightarrow> World" where
  "set_weight D val s =
     (if typeof val = ''number''
      then s\<lparr>self := (self s)\<lparr>p_weight := val\<rparr>\<rparr>
      else s\<lparr>self := (self s)\<lparr>p_weight := get_prop D ''weight''\<rparr>\<rparr>)"

subsection \<open>Property access by name\<close>

text \<open>
  The ten mutable properties, with the key of each, the \<^verbatim>\<open>typeof\<close> its setter tests
  for, and the dispatch of \<^verbatim>\<open>item[key]\<close> and \<^verbatim>\<open>item[key] = val\<close> to the getter and
  the setter of that name.
\<close>

datatype field =
    FBackgroundColor | FImage | FImageOpacity | FImageRadius | FImageRotation
  | FImageScale | FLabel | FLabelColor | FValue | FWeight

fun key :: "field \<Rightarrow> string" where
  "key FBackgroundColor = ''backgroundColor''"
| "key FImage = ''image''"
| "key FImageOpacity = ''imageOpacity''"
| "key FImageRadius = ''imageRadius''"
| "key FImageRotation = ''imageRotation''"
| "key FImageScale = ''imageScale''"
| "key FLabel = ''label''"
| "key FLabelColor = ''labelColor''"
| "key FValue = ''value''"
| "key FWeight = ''weight''"

fun expected :: "field \<Rightarrow> string" where
  "expected FBackgroundColor = ''string''"
| "expected FImage = ''string''"
| "expected FImageOpacity = ''number''"
| "expected FImageRadius = ''number''"
| "expected FImageRotation = ''number''"
| "expected FImageScale = ''number''"
| "expected FLabel = ''string''"
| "expected FLabelColor = ''string''"
| "expected FValue = []"
| "expected FWeight = ''number''"

fun getter :: "field \<Rightarrow> World \<Rightarrow> jsval" where
  "getter FBackgroundColor s = get_backgroundColor s"
| "getter FImage s = get_image s"
| "getter FImageOpacity s = get_imageOpacity s"
| "getter FImageRadius s = get_imageRadius s"
| "getter FImageRotation s = get_imageRotation s"
| "getter FImageScale s = get_imageScale s"
| "getter FLabel s = get_label s"
| "getter FLabelColor s = get_labelColor s"
| "getter FValue s = get_value s"
| "getter FWeight s = get_weight s"

fun setter :: "obj \<Rightarrow> loader \<Rightarrow> field \<Rightarrow> jsval \<Rightarrow> World \<Rightarrow> World" where
  "setter D ld FBackgroundColor val s = set_backgroundColor D val s"
| "setter D ld FImage val s = set_image D ld val s"
| "setter D ld FImageOpacity val s = set_imageOpacity D val s"
| "setter D ld FImageRadius val s = set_imageRadius D val s"
| "setter D ld FImageRotation val s = set_imageRotation D val s"
| "setter D ld FImageScale val s = set_imageScale D val s"
| "setter D ld FLabel val s = set_label D val s"
| "setter D ld FLabelColor val s = set_labelColor D val s"
| "setter D ld FValue val s = set_value D val s"
| "setter D ld FWeight val s = set_weight D val s"

subsection \<open>Construction\<close>

text \<open>
  The loop over \<^verbatim>\<open>Object.keys(Defaults.item)\<close>, which copies every default into the
  private field of the same name, and \<^verbatim>\<open>this._imageObj = null\<close>.
\<close>

definition assign_defaults :: "obj \<Rightarrow> nat \<Rightarrow> Item" where
  "assign_defaults D a =
     \<lparr>addr = a,
      p_backgroundColor = get_prop D ''backgroundColor'',
      p_image = get_prop D ''image'',
      p_imageObj = Null,
      p_imageOpacity = get_prop D ''imageOpacity'',
      p_imageRadius = get_prop D ''imageRadius'',
      p_imageRotation = get_prop D ''imageRotation'',
      p_imageScale = get_prop D ''imageScale'',
      p_label = get_prop D ''label'',
      p_labelColor = get_prop D ''labelColor'',
      p_value = get_prop D ''value'',
      p_weight = get_prop D ''weight''\<rparr>"

text \<open>The typed initial values that the constructor writes next, before \<^verbatim>\<open>init\<close>.\<close>

definition typed_fields :: "Item \<Rightarrow> Item" where
  "typed_fields it =
     it\<lparr>p_backgroundColor := Null,
        p_image := Null,
        p_imageOpacity := Number (Fin 0),
        p_imageRadius := Number (Fin 0),
        p_imageRotation := Number (Fin 0),
        p_imageScale := Number (Fin 0),
        p_label := String [],
        p_labelColor := Null,
        p_value := Undefined,
        p_weight := Number (Fin 0)\<rparr>"

text \<open>
  \<^verbatim>\<open>init(props = {})\<close>: an omitted argument takes \<^verbatim>\<open>{}\<close>. On \<^verbatim>\<open>null\<close> the first
  read, \<^verbatim>\<open>props.backgroundColor\<close>, raises a \<^verbatim>\<open>TypeError\<close> before any setter has
  run.
\<close>

definition init :: "obj \<Rightarrow> loader \<Rightarrow> jsval \<Rightarrow> World \<Rightarrow> error + World" where
  "init D ld props_arg s0 =
     (let props = (if props_arg = Undefined then Object [] else props_arg) in
      if props = Null then Inl TypeError
      else
        (let s1 = set_backgroundColor D (member_of props ''backgroundColor'') s0;
             s2 = set_image D ld (member_of props ''image'') s1;
             s3 = set_imageOpacity D (member_of props ''imageOpacity'') s2;
             s4 = set_imageRadius D (member_of props ''imageRadius'') s3;
             s5 = set_imageRotation D (member_of props ''imageRotation'') s4;
             s6 = set_imageScale D (member_of props ''imageScale'') s5;
             s7 = set_label D (member_of props ''label'') s6;
             s8 = set_labelColor D (member_of props ''labelColor'') s7;
             s9 = set_value D (member_of props ''value'') s8
         in Inr (set_weight D (member_of props ''weight'') s9)))"

text \<open>
  The same ten assignments written as \<^verbatim>\<open>item[key] = props[key]\<close>, key by key in
  the order of \<^verbatim>\<open>init\<close>, each through the setter of that name.
\<close>

definition assign_all :: "obj \<Rightarrow> loader \<Rightarrow> jsval \<Rightarrow> World \<Rightarrow> World" where
  "assign_all D ld props s =
     foldl (\<lambda>s f. setter D ld f (member_of props (key f)) s) s
       [FBackgroundColor, FImage, FImageOpacity, FImageRadius, FImageRotation,
        FImageScale, FLabel, FLabelColor, FValue, FWeight]"

text \<open>
  \<^verbatim>\<open>new Item(wheel, props)\<close>, where \<open>a\<close> is the identity of the new object and \<open>lds\<close>
  the load requests made before. An omitted argument is \<^verbatim>\<open>undefined\<close> and takes the
  default \<^verbatim>\<open>{}\<close>. Both failures are \<^verbatim>\<open>throw new Error(...)\<close> with the message kept.
  An object that is no \<^verbatim>\<open>IWheel\<close> passes the validation, and the first setter of
  \<^verbatim>\<open>init\<close> then fails at \<^verbatim>\<open>this._wheel.refresh()\<close> with a \<^verbatim>\<open>TypeError\<close>, before
  anything outside the new object has changed.
\<close>

definition Item_new ::
  "obj \<Rightarrow> loader \<Rightarrow> nat \<Rightarrow> string list \<Rightarrow> jsval \<Rightarrow> jsval \<Rightarrow> error + World" where
  "Item_new D ld a lds wheel_arg props_arg =
     (let props = (if props_arg = Undefined then Object [] else props_arg) in
      if \<not> isObject wheel_arg
        then Inl (InvalidArgument ''wheel must be an instance of Wheel'')
      else if \<not> isObject props \<and> props \<noteq> Null
        then Inl (InvalidArgument ''props must be an Object or null'')
      else (case wheel_arg of
              WheelObj w \<Rightarrow>
                (let s = \<lparr>self = typed_fields (assign_defaults D a), wheel = w, loads = lds\<rparr>
                 in if truthy props then init D ld props s
                    else init D ld (Object D) s)
            | _ \<Rightarrow> Inl TypeError))"

subsection \<open>Index and angle queries\<close>

text \<open>\<^verbatim>\<open>Array.prototype.findIndex\<close>: the first position that satisfies the test, or -1.\<close>

fun findIndex :: "('a \<Rightarrow> bool) \<Rightarrow> 'a list \<Rightarrow> int" where
  "findIndex P [] = - 1"
| "findIndex P (x # xs) =
     (if P x then 0
      else (let r = findIndex P xs in if r = - 1 then - 1 else r + 1))"

definition getIndex :: "World \<Rightarrow> error + int" where
  "getIndex s =
     (let index = findIndex (\<lambda>i. i = addr (self s)) (items (wheel s)) in
      if index = - 1 then Inl (NotFound ''Item not found in parent Wheel'')
      else Inr index)"

text \<open>
  \<^verbatim>\<open>this._wheel.getItemAngles()[ this.getIndex() ]\<close> followed by the read of a
  property of the entry: outside the table the entry is \<^verbatim>\<open>undefined\<close> and the read
  raises a \<^verbatim>\<open>TypeError\<close>.
\<close>

definition angle_entry :: "World \<Rightarrow> error + angle" where
  "angle_entry s =
     (let tbl = itemAngles (wheel s) in
      case getIndex s of
        Inl e \<Rightarrow> Inl e
      | Inr i \<Rightarrow> if 0 \<le> i \<and> nat i < length tbl then Inr (tbl ! nat i) else Inl TypeError)"

definition getCenterAngle :: "World \<Rightarrow> error + double" where
  "getCenterAngle s =
     (case angle_entry s of
        Inl e \<Rightarrow> Inl e
      | Inr angle \<Rightarrow>
          Inr (fadd (a_start angle) (fhalf (fsub (a_end angle) (a_start angle)))))"

definition getStartAngle :: "World \<Rightarrow> error + double" where
  "getStartAngle s = (case angle_entry s of Inl e \<Rightarrow> Inl e | Inr angle \<Rightarrow> Inr (a_start angle))"

definition getEndAngle :: "World \<Rightarrow> error + double" where
  "getEndAngle s = (case angle_entry s of Inl e \<Rightarrow> Inl e | Inr angle \<Rightarrow> Inr (a_end angle))"

text \<open>
  \<^verbatim>\<open>util.getRandomFloat\<close> is not among the sources; \<open>rnd\<close> stands for one call of it.
  The arguments are evaluated in order, so a failure of \<^verbatim>\<open>getStartAngle\<close> comes first.
\<close>

definition getRandomAngle ::
  "(double \<Rightarrow> double \<Rightarrow> double) \<Rightarrow> World \<Rightarrow> error + double" where
  "getRandomAngle rnd s =
     (case getStartAngle s of
        Inl e \<Rightarrow> Inl e
      | Inr lo \<Rightarrow> (case getEndAngle s of Inl e \<Rightarrow> Inl e | Inr hi \<Rightarrow> Inr (rnd lo hi)))"

text \<open>
  The centre as the specification words it, \<^verbatim>\<open>(startAngle + endAngle) / 2\<close>, in the
  same arithmetic: the value of the expression
  \<^verbatim>\<open>(item.getStartAngle() + item.getEndAngle()) / 2\<close>.
\<close>

definition spec_centerAngle :: "World \<Rightarrow> error + double" where
  "spec_centerAngle s =
     (case getStartAngle s of
        Inl e \<Rightarrow> Inl e
      | Inr lo \<Rightarrow> (case getEndAngle s of Inl e \<Rightarrow> Inl e | Inr hi \<Rightarrow> Inr (fhalf (fadd lo hi))))"

subsection \<open>Traces of assignments and load completions\<close>

text \<open>
  What can happen to an Item over time: a property is assigned, or the load of request
  \<open>k\<close> completes and the loader calls the callback it was given for that request.
\<close>

datatype event = Assign field jsval | LoadDone nat

fun step :: "obj \<Rightarrow> loader \<Rightarrow> World \<Rightarrow> event \<Rightarrow> World" where
  "step D ld s (Assign f v) = setter D ld f v s"
| "step D ld s (LoadDone k) = (if k < length (loads s) then image_onload s else s)"

definition run :: "obj \<Rightarrow> loader \<Rightarrow> World \<Rightarrow> event list \<Rightarrow> World" where
  "run D ld s es = foldl (step D ld) s es"

fun assigns_image :: "event \<Rightarrow> bool" where
  "assigns_image (Assign f v) = (f = FImage)"
| "assigns_image (LoadDone k) = False"

subsection \<open>Sample data\<close>

text \<open>A defaults configuration, a loader and a world, used in the examples below.\<close>

definition sample_defaults :: obj where
  "sample_defaults =
     [(''backgroundColor'', Null), (''image'', Null), (''imageOpacity'', Number (Fin 1)),
      (''imageRadius'', Number (Fin (1 / 2))), (''imageRotation'', Number (Fin 0)),
      (''imageScale'', Number (Fin 1)), (''label'', String []), (''labelColor'', Null),
      (''value'', Null), (''weight'', Number (Fin 1))]"

fun image_element :: loader where
  "image_element n url = Object [(''src'', String url), (''request'', Number (Fin (of_nat n)))]"

definition sample_wheel :: IWheel where
  "sample_wheel = \<lparr>items = [7], itemAngles = [\<lparr>a_start = Fin 0, a_end = Fin 360\<rparr>], refreshed = 0\<rparr>"

definition sample_world :: World where
  "sample_world =
     \<lparr>self = typed_fields (assign_defaults sample_defaults 7), wheel = sample_wheel, loads = []\<rparr>"

text \<open>
  Two more worlds for the same Item (identity 7): one whose wheel no longer lists it, and
  one whose wheel lists it twice, after another item.
\<close>

definition removed_world :: World where
  "removed_world = sample_world\<lparr>wheel := sample_wheel\<lparr>items := [3, 4], itemAngles :=
      [\<lparr>a_start = Fin 0, a_end = Fin 180\<rparr>, \<lparr>a_start = Fin 180, a_end = Fin 360\<rparr>]\<rparr>\<rparr>"

definition present_world :: World where
  "present_world = sample_world\<lparr>wheel := sample_wheel\<lparr>items := [3, 7, 7], itemAngles :=
      [\<lparr>a_start = Fin 0, a_end = Fin 90\<rparr>, \<lparr>a_start = Fin 90, a_end = Fin 180\<rparr>, \<lparr>a_start = Fin 180, a_end = Fin 360\<rparr>]\<rparr>\<rparr>"

text \<open>
  A world for the same Item as the second of three items, on a table whose spans
  (13.333333333333334 and 93.33333333333333 are the doubles written out below) cover
  the circle from 0 to 360.
\<close>

definition uneven_world :: World where
  "uneven_world = sample_world\<lparr>wheel := sample_wheel\<lparr>items := [3, 7, 9], itemAngles :=
      [\<lparr>a_start = Fin 0, a_end = Fin (7505999378950827 / 562949953421312)\<rparr>,
       \<lparr>a_start = Fin (7505999378950827 / 562949953421312),
        a_end = Fin (6567749456581973 / 70368744177664)\<rparr>,
       \<lparr>a_start = Fin (6567749456581973 / 70368744177664), a_end = Fin 360\<rparr>]\<rparr>\<rparr>"

section \<open>Properties of the setters\<close>

lemmas getter_defs =
  get_backgroundColor_def get_image_def get_imageObj_def get_imageOpacity_def
  get_imageRadius_def get_imageRotation_def get_imageScale_def get_label_def
  get_labelColor_def get_value_def get_weight_def

lemmas setter_defs =
  set_backgroundColor_def set_image_def set_imageOpacity_def set_imageRadius_def
  set_imageRotation_def set_imageScale_def set_label_def set_labelColor_def
  set_value_def set_weight_def refresh_def

text \<open>A setter changes no field but its own.\<close>

lemma getter_setter_other:
  "f \<noteq> g \<Longrightarrow> getter f (setter D ld g v s) = getter f s"
  by (cases f; cases g) (simp_all add: getter_defs setter_defs Let_def)

text \<open>
  C1. For every mutable field except \<^verbatim>\<open>value\<close> and every candidate value, the setter
  stores the candidate when its \<^verbatim>\<open>typeof\<close> is the one the field expects (string for
  backgroundColor, image, label and labelColor; number for imageOpacity, imageRadius,
  imageRotation, imageScale and weight), and otherwise stores the field's entry of the
  defaults configuration. The setter is a total function of the state: it has no error
  result.
\<close>

theorem setter_stores_or_defaults:
  "f \<noteq> FValue \<Longrightarrow>
   getter f (setter D ld f v s) = (if typeof v = expected f then v else get_prop D (key f))
   \<and> (expected f = ''string'' \<longleftrightarrow> f \<in> {FBackgroundColor, FImage, FLabel, FLabelColor})
   \<and> (expected f = ''number'' \<longleftrightarrow>
        f \<in> {FImageOpacity, FImageRadius, FImageRotation, FImageScale, FWeight})"
  by (cases f) (simp_all add: getter_defs setter_defs Let_def)

theorem setter_stores_or_defaults_witness:
  "FLabel \<noteq> FValue
   \<and> getter FLabel (setter sample_defaults image_element FLabel (String ''Prize'') sample_world)
       = String ''Prize''
   \<and> getter FLabel (setter sample_defaults image_element FLabel (Number (Fin 5)) sample_world)
       = String []"
  using setter_stores_or_defaults [of FLabel sample_defaults image_element "String ''Prize''" sample_world]
        setter_stores_or_defaults [of FLabel sample_defaults image_element "Number (Fin 5)" sample_world]
  by (simp add: sample_defaults_def)

section \<open>The opaque payload\<close>

text \<open>
  C9. Assigning to \<^verbatim>\<open>value\<close> any value other than the unset sentinel
  (\<^verbatim>\<open>undefined\<close>) stores exactly that value, whatever its type, objects included;
  assigning the sentinel stores the configured default of \<^verbatim>\<open>value\<close>.
\<close>

theorem value_stored_as_is:
  "(v \<noteq> Undefined \<longrightarrow> get_value (set_value D v s) = v)
   \<and> get_value (set_value D Undefined s) = get_prop D ''value''"
  by (simp add: get_value_def set_value_def)

theorem value_stored_as_is_witness:
  "Object [(''id'', Number (Fin 42))] \<noteq> Undefined
   \<and> get_value (set_value sample_defaults (Object [(''id'', Number (Fin 42))]) sample_world)
       = Object [(''id'', Number (Fin 42))]"
  using value_stored_as_is [of "Object [(''id'', Number (Fin 42))]" sample_defaults sample_world]
  by simp

text \<open>
  C10. The unset sentinel of \<^verbatim>\<open>value\<close> is \<^verbatim>\<open>undefined\<close> alone: assigning
  \<^verbatim>\<open>null\<close> stores \<^verbatim>\<open>null\<close>, whatever the configured default is, and only
  assigning \<^verbatim>\<open>undefined\<close> stores the configured default.
\<close>

theorem null_is_a_payload:
  "get_value (set_value D Null s) = Null
   \<and> get_value (set_value D Undefined s) = get_prop D ''value''"
  by (simp add: get_value_def set_value_def)

theorem null_is_a_payload_witness:
  "get_value (set_value [(''value'', Number (Fin 0))] Null sample_world) = Null
   \<and> get_value (set_value [(''value'', Number (Fin 0))] Undefined sample_world) = Number (Fin 0)"
  using null_is_a_payload [of "[(''value'', Number (Fin 0))]" sample_world]
  by simp

section \<open>The re-render signal\<close>

text \<open>
  C7. An assignment to any field other than \<^verbatim>\<open>value\<close> and \<^verbatim>\<open>weight\<close> calls
  \<^verbatim>\<open>refresh()\<close> of the owning Wheel once before it returns, whether the candidate
  was stored or replaced by the default; an assignment to \<^verbatim>\<open>value\<close> calls it not
  at all.
\<close>

theorem refresh_on_assignment:
  "(f \<noteq> FValue \<and> f \<noteq> FWeight \<longrightarrow>
      refreshed (wheel (setter D ld f v s)) = Suc (refreshed (wheel s)))
   \<and> refreshed (wheel (setter D ld FValue v s)) = refreshed (wheel s)"
  by (cases f) (simp_all add: setter_defs Let_def)

theorem refresh_on_assignment_witness:
  "FLabel \<noteq> FValue \<and> FLabel \<noteq> FWeight
   \<and> refreshed (wheel (setter sample_defaults image_element FLabel (Number (Fin 5)) sample_world)) = 1
   \<and> refreshed (wheel (setter sample_defaults image_element FValue (Number (Fin 5)) sample_world)) = 0"
  using refresh_on_assignment [of FLabel sample_defaults image_element "Number (Fin 5)" sample_world]
  by (simp add: sample_world_def sample_wheel_def)

section \<open>Image binding\<close>

text \<open>
  C4, as the code has it. Assigning a string to \<^verbatim>\<open>image\<close> stores that string as
  the URL and, in the same call, stores in \<^verbatim>\<open>imageObj\<close> the value that
  \<^verbatim>\<open>util.loadImage\<close> returns for this request, which is recorded as requested; the
  completion callback leaves \<^verbatim>\<open>imageObj\<close> as it is. Assigning a value that is no
  string stores the configured default URL and sets \<^verbatim>\<open>imageObj\<close> to
  \<^verbatim>\<open>null\<close>.
\<close>

theorem image_assignment:
  "get_image (set_image D ld (String url) s) = String url
   \<and> get_imageObj (set_image D ld (String url) s) = ld (length (loads s)) url
   \<and> loads (set_image D ld (String url) s) = loads s @ [url]
   \<and> get_imageObj (image_onload s) = get_imageObj s
   \<and> (typeof v \<noteq> ''string'' \<longrightarrow>
        get_image (set_image D ld v s) = get_prop D ''image''
        \<and> get_imageObj (set_image D ld v s) = Null)"
  by (simp add: get_image_def get_imageObj_def set_image_def image_onload_def refresh_def Let_def)

theorem image_assignment_witness:
  "typeof (Number (Fin 3)) \<noteq> ''string''
   \<and> get_image (set_image sample_defaults image_element (Number (Fin 3)) sample_world) = Null
   \<and> get_imageObj (set_image sample_defaults image_element (Number (Fin 3)) sample_world) = Null
   \<and> get_imageObj (set_image sample_defaults image_element (String ''a.png'') sample_world)
       = Object [(''src'', String ''a.png''), (''request'', Number (Fin 0))]"
  using image_assignment [of sample_defaults image_element "''a.png''" sample_world "Number (Fin 3)"]
  by (simp add: sample_defaults_def sample_world_def)

text \<open>
  Against the reading of C4 in which \<^verbatim>\<open>imageObj\<close> stays \<^verbatim>\<open>null\<close> until the
  load completes: with a loader that returns the image element it has started to fill,
  \<^verbatim>\<open>imageObj\<close> is that element as soon as the assignment returns, before any load
  has completed: it is not \<^verbatim>\<open>null\<close> until then.
\<close>

theorem imageObj_null_until_loaded_counterexample:
  "get_imageObj (set_image sample_defaults image_element (String ''a.png'') sample_world) \<noteq> Null"
  by (simp add: get_imageObj_def set_image_def refresh_def Let_def)

section \<open>Superseded image loads\<close>

lemma step_keeps_imageObj:
  "\<not> assigns_image e \<Longrightarrow> get_imageObj (step D ld s e) = get_imageObj s"
proof (cases e)
  case (Assign f v)
  assume "\<not> assigns_image e"
  with Assign have "f \<noteq> FImage" by simp
  then show ?thesis using Assign
    by (cases f) (simp_all add: get_imageObj_def setter_defs Let_def)
next
  case (LoadDone k)
  then show ?thesis by (simp add: get_imageObj_def image_onload_def refresh_def)
qed

lemma run_keeps_imageObj:
  "\<forall>e\<in>set es. \<not> assigns_image e \<Longrightarrow> get_imageObj (run D ld s es) = get_imageObj s"
  unfolding run_def
proof (induction es arbitrary: s)
  case Nil
  show ?case by simp
next
  case (Cons e es)
  then show ?case by (simp add: step_keeps_imageObj)
qed

text \<open>
  C5. After two assignments of a URL to \<^verbatim>\<open>image\<close>, \<^verbatim>\<open>imageObj\<close> is what the
  second request returned, and it stays so through every later sequence of load
  completions (of the first request, of the second, in any order) and of assignments to
  other fields: a load that completes late never overwrites it.
\<close>

theorem latest_image_request_wins:
  "\<forall>e\<in>set es. \<not> assigns_image e \<Longrightarrow>
   get_imageObj (run D ld (set_image D ld (String b) (set_image D ld (String a) s)) es)
     = ld (Suc (length (loads s))) b"
proof -
  assume "\<forall>e\<in>set es. \<not> assigns_image e"
  then have "get_imageObj (run D ld (set_image D ld (String b) (set_image D ld (String a) s)) es)
               = get_imageObj (set_image D ld (String b) (set_image D ld (String a) s))"
    by (rule run_keeps_imageObj)
  also have "\<dots> = ld (Suc (length (loads s))) b"
    by (simp add: get_imageObj_def set_image_def refresh_def Let_def)
  finally show ?thesis .
qed

theorem latest_image_request_wins_witness:
  "get_imageObj
     (run sample_defaults image_element
        (set_image sample_defaults image_element (String ''b.png'')
           (set_image sample_defaults image_element (String ''a.png'') sample_world))
        [LoadDone 1, LoadDone 0])
     = Object [(''src'', String ''b.png''), (''request'', Number (Fin 1))]"
proof -
  have "\<forall>e\<in>set [LoadDone 1, LoadDone 0]. \<not> assigns_image e"
    by simp
  then show ?thesis
    using latest_image_request_wins [of "[LoadDone 1, LoadDone 0]" sample_defaults image_element
        "''b.png''" "''a.png''" sample_world]
    by (simp add: sample_world_def)
qed

section \<open>Construction\<close>

lemma init_assign_all:
  "props \<noteq> Null \<Longrightarrow> props \<noteq> Undefined \<Longrightarrow> init D ld props s = Inr (assign_all D ld props s)"
  by (simp add: init_def assign_all_def Let_def)

lemma assign_all_absent_bag:
  "getter f (assign_all D ld (Object []) s) = get_prop D (key f)"
  by (cases f) (simp_all add: assign_all_def getter_defs setter_defs Let_def)

lemma assign_all_defaults_bag:
  "getter f (assign_all D ld (Object D) s) = get_prop D (key f)"
  by (cases f) (simp_all add: assign_all_def getter_defs setter_defs Let_def)

lemma init_not_invalid: "init D ld props s \<noteq> Inl (InvalidArgument m)"
  by (simp add: init_def Let_def)

lemma Item_new_invalid:
  "(\<exists>m. Item_new D ld a lds wh pr = Inl (InvalidArgument m))
   \<longleftrightarrow> (\<not> isObject wh \<or> (pr \<noteq> Undefined \<and> pr \<noteq> Null \<and> \<not> isObject pr))"
  by (cases wh; cases pr) (simp_all add: Item_new_def isObject_def Let_def init_not_invalid)

lemma Item_new_no_bag:
  "pr = Undefined \<or> pr = Null \<Longrightarrow>
   \<exists>s. Item_new D ld a lds (WheelObj w) pr = Inr s \<and> (\<forall>f. getter f s = get_prop D (key f))"
  by (auto simp: Item_new_def isObject_def Let_def init_assign_all assign_all_absent_bag
        assign_all_defaults_bag)

lemma Item_new_bag:
  "isObject pr \<Longrightarrow>
   Item_new D ld a lds (WheelObj w) pr =
     Inr (assign_all D ld pr
            \<lparr>self = typed_fields (assign_defaults D a), wheel = w, loads = lds\<rparr>)"
  by (cases pr) (simp_all add: Item_new_def isObject_def Let_def init_assign_all)

text \<open>
  C2. \<^verbatim>\<open>new Item(wheel, props)\<close> fails with the invalid-argument error exactly when
  the wheel argument is not an object, or the property bag is given, is not \<^verbatim>\<open>null\<close>
  and is not an object. With an \<^verbatim>\<open>IWheel\<close> and a bag that is absent or
  \<^verbatim>\<open>null\<close>, construction succeeds and every field holds its entry of the defaults
  configuration. With an \<^verbatim>\<open>IWheel\<close> and a bag that is an object, construction
  succeeds and the result is that of assigning each of the ten keys of the bag through
  the setter of that key, starting from the freshly allocated Item.
\<close>

theorem construction:
  "((\<exists>m. Item_new D ld a lds wh pr = Inl (InvalidArgument m))
      \<longleftrightarrow> (\<not> isObject wh \<or> (pr \<noteq> Undefined \<and> pr \<noteq> Null \<and> \<not> isObject pr)))
   \<and> (pr = Undefined \<or> pr = Null \<longrightarrow>
        (\<exists>s. Item_new D ld a lds (WheelObj w) pr = Inr s
             \<and> (\<forall>f. getter f s = get_prop D (key f))))
   \<and> (isObject pr \<longrightarrow>
        Item_new D ld a lds (WheelObj w) pr =
          Inr (assign_all D ld pr
                 \<lparr>self = typed_fields (assign_defaults D a), wheel = w, loads = lds\<rparr>))"
  using Item_new_invalid [of D ld a lds wh pr] Item_new_no_bag [of pr D ld a lds w]
    Item_new_bag [of pr D ld a lds w]
  by blast

theorem construction_witness:
  "(\<exists>m. Item_new sample_defaults image_element 7 [] Null Undefined = Inl (InvalidArgument m))
   \<and> (\<exists>m. Item_new sample_defaults image_element 7 [] (WheelObj sample_wheel) (Number (Fin 3))
            = Inl (InvalidArgument m))
   \<and> (\<exists>s. Item_new sample_defaults image_element 7 [] (WheelObj sample_wheel) Null = Inr s
          \<and> getter FWeight s = Number (Fin 1) \<and> getter FLabel s = String [])
   \<and> isObject (Object [(''label'', String ''Prize''), (''weight'', String ''heavy'')])
   \<and> (\<exists>s. Item_new sample_defaults image_element 7 [] (WheelObj sample_wheel)
             (Object [(''label'', String ''Prize''), (''weight'', String ''heavy'')]) = Inr s
          \<and> getter FLabel s = String ''Prize'' \<and> getter FWeight s = Number (Fin 1))"
proof -
  have 1: "\<exists>m. Item_new sample_defaults image_element 7 [] Null Undefined = Inl (InvalidArgument m)"
    using construction [of sample_defaults image_element 7 "[]" Null Undefined sample_wheel]
    by (simp add: isObject_def)
  have 2: "\<exists>m. Item_new sample_defaults image_element 7 [] (WheelObj sample_wheel) (Number (Fin 3))
            = Inl (InvalidArgument m)"
    using construction [of sample_defaults image_element 7 "[]" "WheelObj sample_wheel" "Number (Fin 3)" sample_wheel]
    by (simp add: isObject_def)
  have 3: "\<exists>s. Item_new sample_defaults image_element 7 [] (WheelObj sample_wheel) Null = Inr s
          \<and> getter FWeight s = Number (Fin 1) \<and> getter FLabel s = String []"
  proof -
    have "\<exists>s. Item_new sample_defaults image_element 7 [] (WheelObj sample_wheel) Null = Inr s
            \<and> (\<forall>f. getter f s = get_prop sample_defaults (key f))"
      using construction [of sample_defaults image_element 7 "[]" "WheelObj sample_wheel" Null
          sample_wheel]
      by blast
    then obtain s where s: "Item_new sample_defaults image_element 7 [] (WheelObj sample_wheel) Null = Inr s"
      "\<forall>f. getter f s = get_prop sample_defaults (key f)"
      by blast
    have "getter FWeight s = Number (Fin 1)" "getter FLabel s = String []"
      using s(2) by (simp_all add: sample_defaults_def)
    with s(1) show ?thesis by blast
  qed
  have 4: "isObject (Object [(''label'', String ''Prize''), (''weight'', String ''heavy'')])"
    by (simp add: isObject_def)
  have 5: "\<exists>s. Item_new sample_defaults image_element 7 [] (WheelObj sample_wheel)
             (Object [(''label'', String ''Prize''), (''weight'', String ''heavy'')]) = Inr s
          \<and> getter FLabel s = String ''Prize'' \<and> getter FWeight s = Number (Fin 1)"
    using construction [of sample_defaults image_element 7 "[]" "WheelObj sample_wheel"
        "Object [(''label'', String ''Prize''), (''weight'', String ''heavy'')]" sample_wheel] 4
    by (simp add: assign_all_def getter_defs setter_defs Let_def sample_defaults_def)
  from 1 2 3 4 5 show ?thesis by blast
qed

section \<open>Index and angle queries\<close>

lemma findIndex_absent:
  "\<forall>x\<in>set xs. \<not> P x \<Longrightarrow> findIndex P xs = - 1"
  by (induction xs) simp_all

lemma findIndex_present:
  "\<exists>x\<in>set xs. P x \<Longrightarrow>
   \<exists>i. findIndex P xs = int i \<and> i < length xs \<and> P (xs ! i) \<and> (\<forall>j<i. \<not> P (xs ! j))"
proof (induction xs)
  case Nil
  then show ?case by simp
next
  case (Cons x xs)
  show ?case
  proof (cases "P x")
    case True
    then have "findIndex P (x # xs) = int 0 \<and> 0 < length (x # xs) \<and> P ((x # xs) ! 0)
               \<and> (\<forall>j<0. \<not> P ((x # xs) ! j))"
      by simp
    then show ?thesis by blast
  next
    case False
    with Cons.prems have "\<exists>y\<in>set xs. P y" by simp
    then obtain i where i: "findIndex P xs = int i" "i < length xs" "P (xs ! i)"
      "\<forall>j<i. \<not> P (xs ! j)"
      using Cons.IH by blast
    have "findIndex P (x # xs) = int (Suc i)"
      using False i(1) by (simp add: Let_def)
    moreover have "Suc i < length (x # xs)" using i(2) by simp
    moreover have "P ((x # xs) ! Suc i)" using i(3) by simp
    moreover have "\<forall>j<Suc i. \<not> P ((x # xs) ! j)"
      using False i(4) by (auto simp: less_Suc_eq_0_disj)
    ultimately show ?thesis by blast
  qed
qed

lemma getIndex_absent:
  "addr (self s) \<notin> set (items (wheel s)) \<Longrightarrow>
   getIndex s = Inl (NotFound ''Item not found in parent Wheel'')"
proof -
  assume "addr (self s) \<notin> set (items (wheel s))"
  then have "\<forall>x\<in>set (items (wheel s)). \<not> (x = addr (self s))" by blast
  then have "findIndex (\<lambda>i. i = addr (self s)) (items (wheel s)) = - 1"
    by (rule findIndex_absent)
  then show ?thesis by (simp add: getIndex_def)
qed

lemma getIndex_present:
  "addr (self s) \<in> set (items (wheel s)) \<Longrightarrow>
   \<exists>i. getIndex s = Inr (int i) \<and> i < length (items (wheel s))
       \<and> items (wheel s) ! i = addr (self s)
       \<and> (\<forall>j<i. items (wheel s) ! j \<noteq> addr (self s))"
proof -
  assume "addr (self s) \<in> set (items (wheel s))"
  then have "\<exists>x\<in>set (items (wheel s)). x = addr (self s)" by blast
  then obtain i where i: "findIndex (\<lambda>i. i = addr (self s)) (items (wheel s)) = int i"
      "i < length (items (wheel s))" "items (wheel s) ! i = addr (self s)"
      "\<forall>j<i. items (wheel s) ! j \<noteq> addr (self s)"
    using findIndex_present [of "items (wheel s)" "\<lambda>i. i = addr (self s)"] by blast
  have "getIndex s = Inr (int i)" using i(1) by (simp add: getIndex_def)
  with i show ?thesis by blast
qed

text \<open>
  C3. When the identity of the Item does not occur in the \<^verbatim>\<open>items\<close> of its wheel,
  each of \<^verbatim>\<open>getIndex\<close>, \<^verbatim>\<open>getStartAngle\<close>, \<^verbatim>\<open>getEndAngle\<close>,
  \<^verbatim>\<open>getCenterAngle\<close> and \<^verbatim>\<open>getRandomAngle\<close> fails with the not-found error.
  When it occurs, \<^verbatim>\<open>getIndex\<close> returns the zero-based position of its first
  occurrence, found by comparing identities.
\<close>

theorem removed_item_not_found:
  "(addr (self s) \<notin> set (items (wheel s)) \<longrightarrow>
      getIndex s = Inl (NotFound ''Item not found in parent Wheel'')
      \<and> getStartAngle s = Inl (NotFound ''Item not found in parent Wheel'')
      \<and> getEndAngle s = Inl (NotFound ''Item not found in parent Wheel'')
      \<and> getCenterAngle s = Inl (NotFound ''Item not found in parent Wheel'')
      \<and> getRandomAngle rnd s = Inl (NotFound ''Item not found in parent Wheel''))
   \<and> (addr (self s) \<in> set (items (wheel s)) \<longrightarrow>
      (\<exists>i. getIndex s = Inr (int i) \<and> i < length (items (wheel s))
           \<and> items (wheel s) ! i = addr (self s)
           \<and> (\<forall>j<i. items (wheel s) ! j \<noteq> addr (self s))))"
proof (intro conjI impI)
  assume absent: "addr (self s) \<notin> set (items (wheel s))"
  then show idx: "getIndex s = Inl (NotFound ''Item not found in parent Wheel'')"
    by (rule getIndex_absent)
  then have entry: "angle_entry s = Inl (NotFound ''Item not found in parent Wheel'')"
    by (simp add: angle_entry_def)
  show "getStartAngle s = Inl (NotFound ''Item not found in parent Wheel'')"
    using entry by (simp add: getStartAngle_def)
  show "getEndAngle s = Inl (NotFound ''Item not found in parent Wheel'')"
    using entry by (simp add: getEndAngle_def)
  show "getCenterAngle s = Inl (NotFound ''Item not found in parent Wheel'')"
    using entry by (simp add: getCenterAngle_def)
  show "getRandomAngle rnd s = Inl (NotFound ''Item not found in parent Wheel'')"
    using entry by (simp add: getRandomAngle_def getStartAngle_def)
next
  assume "addr (self s) \<in> set (items (wheel s))"
  then show "\<exists>i. getIndex s = Inr (int i) \<and> i < length (items (wheel s))
           \<and> items (wheel s) ! i = addr (self s)
           \<and> (\<forall>j<i. items (wheel s) ! j \<noteq> addr (self s))"
    by (rule getIndex_present)
qed

theorem removed_item_not_found_witness:
  "addr (self removed_world) \<notin> set (items (wheel removed_world))
   \<and> getStartAngle removed_world = Inl (NotFound ''Item not found in parent Wheel'')
   \<and> getRandomAngle (\<lambda>lo hi. lo) removed_world = Inl (NotFound ''Item not found in parent Wheel'')
   \<and> addr (self present_world) \<in> set (items (wheel present_world))
   \<and> getIndex present_world = Inr 1"
  using removed_item_not_found [of removed_world "\<lambda>lo hi. lo"]
        removed_item_not_found [of present_world "\<lambda>lo hi. lo"]
  by (simp add: removed_world_def present_world_def sample_world_def sample_wheel_def
        typed_fields_def assign_defaults_def getIndex_def Let_def)

section \<open>Properties of the arithmetic\<close>

text \<open>\<open>bits\<close> counts binary digits, and \<open>ilog2\<close> finds the binade of a positive rational.\<close>

lemma bits_pos: "0 < n \<Longrightarrow> 0 < bits n"
  by (subst bits.simps) simp

lemma bits_upper: "n < 2 ^ bits n"
proof (induction n rule: bits.induct)
  case (1 n)
  show ?case
  proof (cases "n = 0")
    case True
    then show ?thesis by (subst bits.simps) simp
  next
    case False
    then have "n div 2 < 2 ^ bits (n div 2)" using 1 by simp
    then have "n < 2 * 2 ^ bits (n div 2)" by linarith
    moreover have "bits n = Suc (bits (n div 2))" using False by (subst bits.simps) simp
    ultimately show ?thesis by simp
  qed
qed

lemma bits_lower: "0 < n \<Longrightarrow> 2 ^ (bits n - 1) \<le> n"
proof (induction n rule: bits.induct)
  case (1 n)
  then have n0: "n \<noteq> 0" by simp
  have bn: "bits n = Suc (bits (n div 2))" using n0 by (subst bits.simps) simp
  show ?case
  proof (cases "n div 2 = 0")
    case True
    then have "bits (n div 2) = 0" by (subst bits.simps) simp
    with bn 1 show ?thesis by simp
  next
    case False
    then have pos: "0 < n div 2" by simp
    then have "2 ^ (bits (n div 2) - 1) \<le> n div 2" using 1 n0 by simp
    moreover have "0 < bits (n div 2)" using pos by (rule bits_pos)
    then have "(2::nat) ^ bits (n div 2) = 2 * 2 ^ (bits (n div 2) - 1)"
      by (cases "bits (n div 2)") simp_all
    ultimately have "(2::nat) ^ bits (n div 2) \<le> n" by linarith
    with bn show ?thesis by simp
  qed
qed

lemma pow2_pos: "0 < pow2 k"
  by (simp add: pow2_def)

lemma pow2_Suc: "pow2 (k + 1) = 2 * pow2 k"
proof (cases "0 \<le> k")
  case True
  then show ?thesis by (simp add: pow2_def nat_add_distrib)
next
  case False
  then have "nat (- k) = Suc (nat (- (k + 1)))" by simp
  then show ?thesis using False by (simp add: pow2_def)
qed

lemma pow2_mono: "a \<le> b \<Longrightarrow> pow2 a \<le> pow2 b"
proof -
  assume "a \<le> b"
  then obtain d where d: "b = a + int d" using zle_iff_zadd by blast
  have "pow2 a \<le> pow2 (a + int d)"
  proof (induction d)
    case 0
    show ?case by simp
  next
    case (Suc d)
    have "a + int (Suc d) = (a + int d) + 1" by simp
    then have "pow2 (a + int (Suc d)) = 2 * pow2 (a + int d)"
      by (simp only: pow2_Suc)
    then show ?case using Suc pow2_pos [of "a + int d"] by linarith
  qed
  with d show ?thesis by simp
qed

lemma binade_unique:
  assumes "pow2 e \<le> x" "x < pow2 (e + 1)" "pow2 k \<le> x" "x < pow2 (k + 1)"
  shows "e = k"
proof (rule ccontr)
  assume "e \<noteq> k"
  then consider "e + 1 \<le> k" | "k + 1 \<le> e" by linarith
  then show False
  proof cases
    case 1
    then have "pow2 (e + 1) \<le> pow2 k" by (rule pow2_mono)
    with assms show False by linarith
  next
    case 2
    then have "pow2 (k + 1) \<le> pow2 e" by (rule pow2_mono)
    with assms show False by linarith
  qed
qed

lemma pow2_nat: "pow2 (int n) = 2 ^ n"
  by (simp add: pow2_def)

lemma pow2_neg: "pow2 (- int n) = 1 / 2 ^ n"
  by (cases n) (simp_all add: pow2_def nat_add_distrib)

lemma ilog2_binade:
  assumes "0 < x"
  shows "pow2 (ilog2 x) \<le> x \<and> x < pow2 (ilog2 x + 1)"
proof (cases "1 \<le> x")
  case True
  define n where "n = nat \<lfloor>x\<rfloor>"
  have fl: "1 \<le> \<lfloor>x\<rfloor>" using True by simp
  then have npos: "0 < n" by (simp add: n_def)
  have nx: "of_nat n \<le> x" "x < of_nat n + 1"
    using fl floor_correct [of x] by (simp_all add: n_def)
  have il: "ilog2 x = int (bits n) - 1" using True by (simp add: ilog2_def n_def)
  have bp: "0 < bits n" using npos by (rule bits_pos)
  then have il': "ilog2 x = int (bits n - 1)" using il by simp
  have "(2::rat) ^ (bits n - 1) \<le> of_nat n"
    using bits_lower [OF npos] by (metis of_nat_le_iff of_nat_numeral of_nat_power)
  moreover have "pow2 (ilog2 x) = 2 ^ (bits n - 1)" by (simp only: il' pow2_nat)
  ultimately have lo: "pow2 (ilog2 x) \<le> x" using nx(1) by linarith
  have "n + 1 \<le> 2 ^ bits n" using bits_upper [of n] by simp
  then have "(of_nat (n + 1) :: rat) \<le> of_nat (2 ^ bits n)" by (simp only: of_nat_le_iff)
  then have "(of_nat n :: rat) + 1 \<le> 2 ^ bits n" by simp
  moreover have "ilog2 x + 1 = int (bits n)" using il by simp
  ultimately have hi: "x < pow2 (ilog2 x + 1)" using nx(2) by (simp add: pow2_nat)
  from lo hi show ?thesis by simp
next
  case False
  define m where "m = nat (\<lceil>1 / x\<rceil> - 1)"
  have inv: "1 < 1 / x" using assms False by simp
  have e21: "(of_int 2 :: rat) - 1 = 1" by simp
  have c2: "2 \<le> \<lceil>1 / x\<rceil>" unfolding le_ceiling_iff e21 using inv .
  then have mpos: "0 < m" by (simp add: m_def)
  have "0 \<le> \<lceil>1 / x\<rceil> - 1" using c2 by linarith
  then have mi: "int m = \<lceil>1 / x\<rceil> - 1" by (simp only: m_def int_nat_eq if_True)
  have m1: "of_nat m < 1 / x"
  proof -
    have "of_int (\<lceil>1 / x\<rceil> - 1) < 1 / x" using ceiling_correct [of "1 / x"] by simp
    then show ?thesis using mi by (metis of_int_of_nat_eq)
  qed
  have m2: "1 / x \<le> of_nat m + 1"
  proof -
    have "1 / x \<le> of_int \<lceil>1 / x\<rceil>" by simp
    also have "\<dots> = of_int (int m) + 1" using mi by simp
    finally show ?thesis by simp
  qed
  have il: "ilog2 x = - int (bits m)" using False by (simp add: ilog2_def m_def)
  have bp: "0 < bits m" using mpos by (rule bits_pos)
  have "m + 1 \<le> 2 ^ bits m" using bits_upper [of m] by simp
  then have "(of_nat (m + 1) :: rat) \<le> of_nat (2 ^ bits m)" by (simp only: of_nat_le_iff)
  then have "(of_nat m :: rat) + 1 \<le> 2 ^ bits m" by simp
  with m2 have "1 / x \<le> 2 ^ bits m" by linarith
  then have "1 \<le> 2 ^ bits m * x" using assms by (simp add: field_simps)
  then have lo: "pow2 (ilog2 x) \<le> x" by (simp add: il pow2_neg field_simps)
  have "(2::rat) ^ (bits m - 1) \<le> of_nat m"
    using bits_lower [OF mpos] by (metis of_nat_le_iff of_nat_numeral of_nat_power)
  with m1 have "2 ^ (bits m - 1) < 1 / x" by linarith
  then have "2 ^ (bits m - 1) * x < 1" using assms by (simp add: field_simps)
  moreover have "ilog2 x + 1 = - int (bits m - 1)" using il bp by simp
  ultimately have hi: "x < pow2 (ilog2 x + 1)"
    by (simp only: pow2_neg) (simp add: field_simps)
  from lo hi show ?thesis by simp
qed

lemma ilog2_eqI: "pow2 e \<le> x \<Longrightarrow> x < pow2 (e + 1) \<Longrightarrow> ilog2 x = e"
proof -
  assume a: "pow2 e \<le> x" "x < pow2 (e + 1)"
  have "0 < x" using a(1) pow2_pos [of e] by linarith
  then have "pow2 (ilog2 x) \<le> x \<and> x < pow2 (ilog2 x + 1)" by (rule ilog2_binade)
  then show ?thesis using binade_unique [of "ilog2 x" x e] a by simp
qed

lemma rne_exact: "rne (of_int n) = n"
  by (simp add: rne_def)

lemma rne_nearest:
  assumes "of_int n - 1 / 2 < x" "x < of_int n + 1 / 2"
  shows "rne x = n"
proof (cases "of_int n \<le> x")
  case True
  then have f: "\<lfloor>x\<rfloor> = n" using assms(2) by (intro floor_unique) linarith+
  then show ?thesis using assms(2) by (simp add: rne_def Let_def)
next
  case False
  then have f: "\<lfloor>x\<rfloor> = n - 1" using assms(1) by (intro floor_unique) simp_all
  then show ?thesis using assms(1) by (simp add: rne_def Let_def)
qed

lemma round64_eqI:
  assumes "pow2 e \<le> \<bar>x\<bar>" "\<bar>x\<bar> < pow2 (e + 1)" "- 1022 \<le> e"
    and "rne (x / pow2 (e - 52)) = n"
    and "\<bar>of_int n * pow2 (e - 52)\<bar> < pow2 1024"
  shows "round64 x = Fin (of_int n * pow2 (e - 52))"
proof -
  have "x \<noteq> 0" using assms(1) pow2_pos [of e] by auto
  moreover have "ilog2 \<bar>x\<bar> = e" using assms(1,2) by (rule ilog2_eqI)
  moreover have "max e (- 1022) = e" using assms(3) by simp
  ultimately show ?thesis using assms(4,5) by (simp add: round64_def Let_def)
qed

lemma round64_360: "round64 360 = Fin 360"
proof -
  have "rne (360 / pow2 (8 - 52)) = 6333186975989760"
    using rne_exact [of 6333186975989760] by (simp add: pow2_def)
  then have "round64 360 = Fin (of_int 6333186975989760 * pow2 (8 - 52))"
    by (intro round64_eqI) (simp_all add: pow2_def)
  then show ?thesis by (simp add: pow2_def)
qed

lemma round64_180: "round64 180 = Fin 180"
proof -
  have "rne (180 / pow2 (7 - 52)) = 6333186975989760"
    using rne_exact [of 6333186975989760] by (simp add: pow2_def)
  then have "round64 180 = Fin (of_int 6333186975989760 * pow2 (7 - 52))"
    by (intro round64_eqI) (simp_all add: pow2_def)
  then show ?thesis by (simp add: pow2_def)
qed

lemma full_circle_centre: "fadd (Fin 0) (fhalf (fsub (Fin 360) (Fin 0))) = Fin 180"
  by (simp add: fsub_def round64_360 round64_180)

text \<open>
  The arithmetic of the two expressions for the centre on the span from
  13.333333333333334 to 93.33333333333333.
\<close>

lemma span_difference: "fsub (Fin (6567749456581973/70368744177664)) (Fin (7505999378950827/562949953421312)) = Fin 80"
proof -
  have "rne ((6567749456581973/70368744177664 - 7505999378950827/562949953421312) / pow2 (6 - 52))
          = 5629499534213120"
    by (rule rne_nearest) (simp_all add: pow2_def)
  then have "round64 (6567749456581973/70368744177664 - 7505999378950827/562949953421312)
          = Fin (of_int 5629499534213120 * pow2 (6 - 52))"
    by (intro round64_eqI) (simp_all add: pow2_def)
  then show ?thesis by (simp add: fsub_def pow2_def)
qed

lemma span_half: "fhalf (Fin 80) = Fin 40"
proof -
  have "rne (80 / 2 / pow2 (5 - 52)) = 5629499534213120"
    using rne_exact [of 5629499534213120] by (simp add: pow2_def)
  then have "round64 (80 / 2) = Fin (of_int 5629499534213120 * pow2 (5 - 52))"
    by (intro round64_eqI) (simp_all add: pow2_def)
  then show ?thesis by (simp add: pow2_def)
qed

lemma centre_by_the_code: "fadd (Fin (7505999378950827/562949953421312)) (Fin 40) = Fin (7505999378950827/140737488355328)"
proof -
  have "rne ((7505999378950827/562949953421312 + 40) / pow2 (5 - 52)) = 7505999378950827"
    by (rule rne_nearest) (simp_all add: pow2_def)
  then have "round64 (7505999378950827/562949953421312 + 40)
          = Fin (of_int 7505999378950827 * pow2 (5 - 52))"
    by (intro round64_eqI) (simp_all add: pow2_def)
  then show ?thesis by (simp add: pow2_def)
qed

lemma bounds_sum: "fadd (Fin (7505999378950827/562949953421312)) (Fin (6567749456581973/70368744177664)) = Fin (3752999689475413/35184372088832)"
proof -
  have "rne ((7505999378950827/562949953421312 + 6567749456581973/70368744177664) / pow2 (6 - 52))
          = 7505999378950826"
    by (rule rne_nearest) (simp_all add: pow2_def)
  then have "round64 (7505999378950827/562949953421312 + 6567749456581973/70368744177664)
          = Fin (of_int 7505999378950826 * pow2 (6 - 52))"
    by (intro round64_eqI) (simp_all add: pow2_def)
  then show ?thesis by (simp add: pow2_def)
qed

lemma bounds_sum_half: "fhalf (Fin (3752999689475413/35184372088832)) = Fin (3752999689475413/70368744177664)"
proof -
  have "rne (3752999689475413/35184372088832 / 2 / pow2 (5 - 52)) = 7505999378950826"
    using rne_exact [of 7505999378950826] by (simp add: pow2_def)
  then have "round64 (3752999689475413/35184372088832 / 2)
          = Fin (of_int 7505999378950826 * pow2 (5 - 52))"
    by (intro round64_eqI) (simp_all add: pow2_def)
  then show ?thesis by (simp add: pow2_def)
qed

section \<open>The centre angle\<close>

lemma angle_entry_present:
  assumes "addr (self s) \<in> set (items (wheel s))"
    and "length (items (wheel s)) \<le> length (itemAngles (wheel s))"
  shows "\<exists>i. i < length (itemAngles (wheel s)) \<and> angle_entry s = Inr (itemAngles (wheel s) ! i)"
proof -
  obtain i where i: "getIndex s = Inr (int i)" "i < length (items (wheel s))"
    using getIndex_present [OF assms(1)] by blast
  with assms(2) have "angle_entry s = Inr (itemAngles (wheel s) ! i)"
    by (simp add: angle_entry_def)
  moreover have "i < length (itemAngles (wheel s))" using i(2) assms(2) by linarith
  ultimately show ?thesis by blast
qed

lemma getCenterAngle_by_bounds:
  "getCenterAngle s =
     (case getStartAngle s of
        Inl e \<Rightarrow> Inl e
      | Inr lo \<Rightarrow>
          (case getEndAngle s of
             Inl e \<Rightarrow> Inl e
           | Inr hi \<Rightarrow> Inr (fadd lo (fhalf (fsub hi lo)))))"
  by (simp add: getCenterAngle_def getStartAngle_def getEndAngle_def split: sum.split)

lemma uneven_entry:
  "angle_entry uneven_world =
     Inr \<lparr>a_start = Fin (7505999378950827 / 562949953421312),
          a_end = Fin (6567749456581973 / 70368744177664)\<rparr>"
  by (simp add: uneven_world_def sample_world_def sample_wheel_def typed_fields_def
        assign_defaults_def angle_entry_def getIndex_def Let_def)

text \<open>
  C8, as the code has it. \<^verbatim>\<open>getCenterAngle()\<close> returns
  \<^verbatim>\<open>start + (end - start) / 2\<close>, each operation rounded as the arithmetic of doubles
  rounds it, on the start and the end that \<^verbatim>\<open>getStartAngle()\<close> and
  \<^verbatim>\<open>getEndAngle()\<close> return; the three queries fail together with the same error.
  For an Item that is in the sequence of a wheel whose angle table has an entry for
  every item, all three succeed. When the subtraction, the halving and the addition
  are exact, the centre is the midpoint \<open>(start + end) / 2\<close>; for a span from 0 to 360
  it is 180.
\<close>

theorem center_angle_formula:
  "getCenterAngle s =
     (case getStartAngle s of
        Inl e \<Rightarrow> Inl e
      | Inr lo \<Rightarrow>
          (case getEndAngle s of
             Inl e \<Rightarrow> Inl e
           | Inr hi \<Rightarrow> Inr (fadd lo (fhalf (fsub hi lo)))))
   \<and> (addr (self s) \<in> set (items (wheel s))
        \<and> length (items (wheel s)) \<le> length (itemAngles (wheel s)) \<longrightarrow>
      (\<exists>lo hi. getStartAngle s = Inr lo \<and> getEndAngle s = Inr hi
               \<and> getCenterAngle s = Inr (fadd lo (fhalf (fsub hi lo)))))
   \<and> (getStartAngle s = Inr (Fin a) \<and> getEndAngle s = Inr (Fin b)
        \<and> round64 (b - a) = Fin (b - a)
        \<and> round64 ((b - a) / 2) = Fin ((b - a) / 2)
        \<and> round64 (a + (b - a) / 2) = Fin (a + (b - a) / 2) \<longrightarrow>
        getCenterAngle s = Inr (Fin ((a + b) / 2)))
   \<and> (getStartAngle s = Inr (Fin 0) \<and> getEndAngle s = Inr (Fin 360) \<longrightarrow>
        getCenterAngle s = Inr (Fin 180))"
proof (intro conjI impI)
  show "getCenterAngle s =
     (case getStartAngle s of
        Inl e \<Rightarrow> Inl e
      | Inr lo \<Rightarrow>
          (case getEndAngle s of
             Inl e \<Rightarrow> Inl e
           | Inr hi \<Rightarrow> Inr (fadd lo (fhalf (fsub hi lo)))))"
    by (rule getCenterAngle_by_bounds)
next
  assume "addr (self s) \<in> set (items (wheel s))
        \<and> length (items (wheel s)) \<le> length (itemAngles (wheel s))"
  then obtain i where "angle_entry s = Inr (itemAngles (wheel s) ! i)"
    using angle_entry_present [of s] by blast
  then show "\<exists>lo hi. getStartAngle s = Inr lo \<and> getEndAngle s = Inr hi
               \<and> getCenterAngle s = Inr (fadd lo (fhalf (fsub hi lo)))"
    by (simp add: getCenterAngle_def getStartAngle_def getEndAngle_def)
next
  assume ex: "getStartAngle s = Inr (Fin a) \<and> getEndAngle s = Inr (Fin b)
        \<and> round64 (b - a) = Fin (b - a)
        \<and> round64 ((b - a) / 2) = Fin ((b - a) / 2)
        \<and> round64 (a + (b - a) / 2) = Fin (a + (b - a) / 2)"
  then have "getCenterAngle s = Inr (fadd (Fin a) (fhalf (fsub (Fin b) (Fin a))))"
    by (simp add: getCenterAngle_by_bounds)
  also have "fsub (Fin b) (Fin a) = Fin (b - a)" using ex by (simp add: fsub_def)
  also have "fhalf (Fin (b - a)) = Fin ((b - a) / 2)" using ex by simp
  also have "fadd (Fin a) (Fin ((b - a) / 2)) = Fin (a + (b - a) / 2)" using ex by simp
  also have "a + (b - a) / 2 = (a + b) / 2" by (simp add: field_simps)
  finally show "getCenterAngle s = Inr (Fin ((a + b) / 2))" .
next
  assume "getStartAngle s = Inr (Fin 0) \<and> getEndAngle s = Inr (Fin 360)"
  then have "getCenterAngle s = Inr (fadd (Fin 0) (fhalf (fsub (Fin 360) (Fin 0))))"
    by (simp add: getCenterAngle_by_bounds)
  then show "getCenterAngle s = Inr (Fin 180)"
    by (simp only: full_circle_centre)
qed

theorem center_angle_formula_witness:
  "addr (self sample_world) \<in> set (items (wheel sample_world))
   \<and> length (items (wheel sample_world)) \<le> length (itemAngles (wheel sample_world))
   \<and> getStartAngle sample_world = Inr (Fin 0)
   \<and> getEndAngle sample_world = Inr (Fin 360)
   \<and> round64 360 = Fin 360
   \<and> round64 180 = Fin 180
   \<and> getCenterAngle sample_world = Inr (Fin 180)"
proof -
  have entry: "angle_entry sample_world = Inr \<lparr>a_start = Fin 0, a_end = Fin 360\<rparr>"
    by (simp add: sample_world_def sample_wheel_def typed_fields_def assign_defaults_def
          angle_entry_def getIndex_def Let_def)
  have bounds: "getStartAngle sample_world = Inr (Fin 0)"
    "getEndAngle sample_world = Inr (Fin 360)"
    by (simp_all add: getStartAngle_def getEndAngle_def entry)
  have "getCenterAngle sample_world = Inr (Fin 180)"
    using center_angle_formula [of sample_world] bounds by blast
  moreover have "addr (self sample_world) \<in> set (items (wheel sample_world))"
    "length (items (wheel sample_world)) \<le> length (itemAngles (wheel sample_world))"
    by (simp_all add: sample_world_def sample_wheel_def typed_fields_def assign_defaults_def)
  ultimately show ?thesis using bounds round64_360 round64_180 by blast
qed

text \<open>
  Against C8 as it is worded: on the second span of \<open>uneven_world\<close>, from
  13.333333333333334 to 93.33333333333333, \<^verbatim>\<open>getCenterAngle()\<close> returns
  53.333333333333336, while \<^verbatim>\<open>(getStartAngle() + getEndAngle()) / 2\<close> is
  53.33333333333333.
\<close>

theorem center_half_sum_counterexample:
  "getCenterAngle uneven_world = Inr (Fin (7505999378950827 / 140737488355328))
   \<and> spec_centerAngle uneven_world = Inr (Fin (3752999689475413 / 70368744177664))
   \<and> getCenterAngle uneven_world \<noteq> spec_centerAngle uneven_world"
proof -
  have code: "getCenterAngle uneven_world = Inr (Fin (7505999378950827 / 140737488355328))"
    unfolding getCenterAngle_def uneven_entry
    by (simp only: sum.case angle.simps span_difference span_half centre_by_the_code)
  have spec: "spec_centerAngle uneven_world = Inr (Fin (3752999689475413 / 70368744177664))"
    unfolding spec_centerAngle_def getStartAngle_def getEndAngle_def uneven_entry
    by (simp only: sum.case angle.simps bounds_sum bounds_sum_half)
  have "Fin (7505999378950827 / 140737488355328) \<noteq> Fin (3752999689475413 / 70368744177664)"
    by simp
  with code spec show ?thesis by simp
qed

end
